theory Spec2Isabelle
  imports Complex_Main "HOL-Library.AList"
begin

section \<open>Python strings\<close>

text \<open>
  A Python \<open>str\<close> is modelled as a \<open>string\<close> whose characters are the code points
  below 256, one \<open>char\<close> per code point, so that \<open>length\<close> is Python's \<open>len\<close>.
  Code points from 256 on are outside the model.
\<close>

definition py_whitespace :: "char list" where
  \<comment> \<open>The code points below 256 for which \<open>str.isspace\<close> holds: U+0009..U+000D,
      U+001C..U+001F, U+0020, U+0085 and U+00A0.\<close>
  "py_whitespace =
     [CHR 0x09, CHR 0x0A, CHR 0x0B, CHR 0x0C, CHR 0x0D,
      CHR 0x1C, CHR 0x1D, CHR 0x1E, CHR 0x1F, CHR 0x20, CHR 0x85, CHR 0xA0]"

definition py_isspace :: "char \<Rightarrow> bool" where
  "py_isspace c = (c \<in> set py_whitespace)"

definition py_strip :: "string \<Rightarrow> string" where
  \<comment> \<open>\<open>s.strip()\<close>: leading and trailing whitespace removed.\<close>
  "py_strip s = rev (dropWhile py_isspace (rev (dropWhile py_isspace s)))"

definition lower_char :: "char \<Rightarrow> char" where
  \<comment> \<open>\<open>str.lower\<close> on one code point below 256: A..Z and the Latin-1 capitals
      U+00C0..U+00DE (but not the multiplication sign U+00D7) move up by 32.\<close>
  "lower_char c =
     (let n = (of_char c :: nat)
      in if (65 \<le> n \<and> n \<le> 90) \<or> (192 \<le> n \<and> n \<le> 222 \<and> n \<noteq> 215)
         then char_of (n + 32) else c)"

definition py_lower :: "string \<Rightarrow> string" where
  "py_lower s = map lower_char s"

fun py_join :: "string \<Rightarrow> string list \<Rightarrow> string" where
  \<comment> \<open>\<open>sep.join(xs)\<close>\<close>
  "py_join sep [] = []"
| "py_join sep [x] = x"
| "py_join sep (x # y # ys) = x @ sep @ py_join sep (y # ys)"

fun py_contains :: "string \<Rightarrow> string \<Rightarrow> bool" where
  \<comment> \<open>\<open>needle in hay\<close>: \<open>needle\<close> occurs in \<open>hay\<close> as a contiguous run.\<close>
  "py_contains needle [] = (needle = [])"
| "py_contains needle (c # cs) =
     (take (length needle) (c # cs) = needle \<or> py_contains needle cs)"

fun split_ws_aux :: "string \<Rightarrow> string \<Rightarrow> string list" where
  \<comment> \<open>The loop of \<open>s.split()\<close>: \<open>cur\<close> is the word being read, reversed.\<close>
  "split_ws_aux cur [] = (if cur = [] then [] else [rev cur])"
| "split_ws_aux cur (c # cs) =
     (if py_isspace c
      then (if cur = [] then split_ws_aux [] cs else rev cur # split_ws_aux [] cs)
      else split_ws_aux (c # cur) cs)"

fun py_str :: "nat \<Rightarrow> string" where
  \<comment> \<open>\<open>str(n)\<close> of a natural number: its decimal digits.\<close>
  "py_str n =
     (if n < 10 then [char_of (48 + n)] else py_str (n div 10) @ [char_of (48 + n mod 10)])"

declare py_str.simps [simp del]

definition py_split_ws :: "string \<Rightarrow> string list" where
  \<comment> \<open>\<open>s.split()\<close>: the maximal runs of non-whitespace.\<close>
  "py_split_ws s = split_ws_aux [] s"

fun last_segment_aux :: "char \<Rightarrow> string \<Rightarrow> string \<Rightarrow> string" where
  "last_segment_aux sep cur [] = rev cur"
| "last_segment_aux sep cur (c # cs) =
     (if c = sep then last_segment_aux sep [] cs else last_segment_aux sep (c # cur) cs)"

definition last_segment :: "char \<Rightarrow> string \<Rightarrow> string" where
  \<comment> \<open>\<open>s.split(sep)[-1]\<close>: what follows the last \<open>sep\<close> (all of \<open>s\<close> when there is none).\<close>
  "last_segment sep s = last_segment_aux sep [] s"

section \<open>The parsed page, as the DOM queries of the scrapers see it\<close>

text \<open>
  BeautifulSoup is an external library. A parsed document is modelled by the results of
  the queries the scrapers put to it, an element by the text nodes below it, in document
  order. \<open>el.text\<close> is their concatenation;
  \<open>el.get_text(strip=True)\<close> strips every node, drops the empty ones and concatenates;
  \<open>el.get_text(separator=' ', strip=True)\<close> joins them with a blank instead.
\<close>

type_synonym element = "string list"

definition text_of :: "element \<Rightarrow> string" where
  "text_of el = concat el"

definition stripped_nodes :: "element \<Rightarrow> string list" where
  "stripped_nodes el = filter (\<lambda>s. s \<noteq> []) (map py_strip el)"

definition get_text_strip :: "element \<Rightarrow> string" where
  "get_text_strip el = concat (stripped_nodes el)"

definition get_text_sep_strip :: "string \<Rightarrow> element \<Rightarrow> string" where
  "get_text_sep_strip sep el = py_join sep (stripped_nodes el)"

record table_element =
  classes :: "string list"
    \<comment> \<open>the tokens of the table's \<open>class\<close> attribute\<close>
  prev_h3_title_sub :: "element option"
    \<comment> \<open>\<open>table.find_previous('h3', class_='title-sub')\<close>\<close>
  prev_h3 :: "element option"
    \<comment> \<open>\<open>table.find_previous('h3')\<close>\<close>
  prev_h2 :: "element option"
    \<comment> \<open>\<open>table.find_previous('h2')\<close>\<close>
  prev_h4 :: "element option"
    \<comment> \<open>\<open>table.find_previous('h4')\<close>\<close>
  rows :: "element list list"
    \<comment> \<open>\<open>table.select('tr')\<close>, each row given as its \<open>row.select('td, th')\<close>\<close>

record link_element =
  href :: "string option"
    \<comment> \<open>\<open>link_element['href']\<close>; a missing attribute raises KeyError\<close>
  product_title :: "element option"
    \<comment> \<open>\<open>link_element.select_one('div.product-title')\<close>\<close>

record soup =
  no_result :: bool
    \<comment> \<open>\<open>soup.select_one('div.no-result')\<close> is not None\<close>
  product_links :: "link_element list"
    \<comment> \<open>\<open>soup.select('a.whole-link.d-block')\<close>\<close>
  tables :: "table_element list"
    \<comment> \<open>the \<open>table\<close> elements of the page, in document order\<close>
  desc_elements :: "element list"
    \<comment> \<open>\<open>soup.select('.product-desc, .overview, .description')\<close>\<close>

definition select_table_spec :: "soup \<Rightarrow> table_element list" where
  \<comment> \<open>\<open>soup.select('table.table-spec')\<close>\<close>
  "select_table_spec soup = filter (\<lambda>t. ''table-spec'' \<in> set (classes t)) (tables soup)"

definition select_table_spec_any :: "soup \<Rightarrow> table_element list" where
  \<comment> \<open>\<open>soup.select('table.table-spec, table[class*="spec"]')\<close>: the second selector
      matches when the attribute's value, its tokens joined by blanks, contains "spec".\<close>
  "select_table_spec_any soup =
     filter (\<lambda>t. ''table-spec'' \<in> set (classes t)
                \<or> (classes t \<noteq> [] \<and> py_contains ''spec'' (py_join '' '' (classes t))))
       (tables soup)"

section \<open>Specification extraction\<close>

type_synonym specs = "(string \<times> string) list"
  \<comment> \<open>a Python dict of strings, in insertion order; \<open>AList.update\<close> is \<open>d[k] = v\<close>\<close>

definition full_key :: "string \<Rightarrow> string \<Rightarrow> string" where
  \<comment> \<open>\<open>f"{category} - {key}" if category else key\<close>\<close>
  "full_key category key = (if category \<noteq> [] then category @ '' - '' @ key else key)"

subsection \<open>Browser path: \<open>ProductScraper._extract_specifications\<close>\<close>

definition browser_category :: "table_element \<Rightarrow> string" where
  "browser_category t =
     (case prev_h3_title_sub t of None \<Rightarrow> [] | Some h \<Rightarrow> py_strip (text_of h))"

definition browser_row :: "string \<Rightarrow> element list \<Rightarrow> specs \<Rightarrow> specs" where
  "browser_row category cells sp =
     (if length cells \<ge> 2 then
        (let key = py_strip (text_of (cells ! 0));
             val = py_strip (text_of (cells ! 1))
         in if key \<noteq> [] \<and> val \<noteq> []
            then AList.update (full_key category key) val sp
            else sp)
      else sp)"

definition browser_table :: "table_element \<Rightarrow> specs \<Rightarrow> specs" where
  "browser_table t sp = fold (browser_row (browser_category t)) (rows t) sp"

definition extract_specifications :: "soup \<Rightarrow> specs" where
  "extract_specifications soup = fold browser_table (select_table_spec soup) []"

subsection \<open>Fallback path: \<open>FallbackScraper._extract_specifications_simple\<close>\<close>

definition fallback_category :: "table_element \<Rightarrow> string" where
  \<comment> \<open>The first of h3, h2, h4 that has a preceding element decides, even when its text
      is empty (the loop breaks there).\<close>
  "fallback_category t =
     (case prev_h3 t of Some h \<Rightarrow> get_text_strip h
      | None \<Rightarrow>
         (case prev_h2 t of Some h \<Rightarrow> get_text_strip h
          | None \<Rightarrow>
             (case prev_h4 t of Some h \<Rightarrow> get_text_strip h
              | None \<Rightarrow> [])))"

definition fallback_row :: "string \<Rightarrow> element list \<Rightarrow> specs \<Rightarrow> specs" where
  "fallback_row category cells sp =
     (if length cells \<ge> 2 then
        (let key = get_text_strip (cells ! 0);
             val = get_text_strip (cells ! 1)
         in if key \<noteq> [] \<and> val \<noteq> []
               \<and> py_lower key \<notin> set [''specification'', ''feature'']
            then AList.update (full_key category key) val sp
            else sp)
      else sp)"

definition fallback_table :: "table_element \<Rightarrow> specs \<Rightarrow> specs" where
  "fallback_table t sp = fold (fallback_row (fallback_category t)) (rows t) sp"

definition truncate_description :: "string \<Rightarrow> string" where
  \<comment> \<open>\<open>text[:500] + '...' if len(text) > 500 else text\<close>\<close>
  "truncate_description text = (if length text > 500 then take 500 text @ ''...'' else text)"

fun description_entry :: "element list \<Rightarrow> specs" where
  \<comment> \<open>The loop over \<open>desc_elements\<close>, entered with \<open>specs\<close> empty: the first element
      whose stripped text is longer than 10 characters gives the entry, then \<open>break\<close>.\<close>
  "description_entry [] = []"
| "description_entry (d # ds) =
     (let text = get_text_strip d
      in if text \<noteq> [] \<and> length text > 10
         then [(''Description'', truncate_description text)]
         else description_entry ds)"

definition extract_specifications_simple :: "soup \<Rightarrow> specs" where
  "extract_specifications_simple soup =
     (let sp = fold fallback_table (select_table_spec_any soup) []
      in if sp = [] then description_entry (desc_elements soup) else sp)"

section \<open>Configuration\<close>

record scraping_config =
  max_retries :: int
  retry_delay_min :: real
  retry_delay_max :: real
  max_products_per_search :: int
  search_delay_min :: real
  search_delay_max :: real
  product_delay_min :: real
  product_delay_max :: real

record server_config =
  base_url :: string
  save_debug_html :: bool

text \<open>
  The two module globals \<open>config\<close> and \<open>scraping_config\<close>. The timeouts and the Chrome
  options are handed to the browser and decide nothing here. \<open>max_retries\<close> and
  \<open>max_products_per_search\<close> are read from the environment with \<open>int(...)\<close> and are
  not validated, so they are any integers.
\<close>

record settings =
  config :: server_config
  scraping_config :: scraping_config

definition default_settings :: settings where
  "default_settings =
     \<lparr>config = \<lparr>base_url = ''https://www.asrockind.com'', save_debug_html = False\<rparr>,
      scraping_config =
        \<lparr>max_retries = 2, retry_delay_min = 2, retry_delay_max = 4,
         max_products_per_search = 3, search_delay_min = 1, search_delay_max = 2,
         product_delay_min = 1, product_delay_max = 2\<rparr>\<rparr>"

section \<open>Effects and the outside world\<close>

datatype event =
    Sleep real real
      \<comment> \<open>\<open>sleep(random.uniform(lo, hi))\<close>, with the two bounds\<close>
  | Launch
      \<comment> \<open>\<open>webdriver.Chrome(...)\<close> with its timeouts and anti-detection commands\<close>
  | Quit
      \<comment> \<open>\<open>driver.quit()\<close>\<close>
  | Current_url
      \<comment> \<open>the liveness probe \<open>driver.current_url\<close>\<close>
  | Get string
      \<comment> \<open>\<open>driver.get(url)\<close>\<close>
  | Wait_until
      \<comment> \<open>\<open>WebDriverWait(...).until(...)\<close>\<close>
  | Page_source
      \<comment> \<open>\<open>driver.page_source\<close>\<close>
  | Save_debug string
      \<comment> \<open>\<open>_save_debug_html(page_source, filename)\<close>\<close>
  | Http_get string
      \<comment> \<open>\<open>session.get(url)\<close> of the fallback scraper\<close>

datatype launch_outcome =
    Launch_ok
  | Launch_raises
      \<comment> \<open>the driver download or \<open>webdriver.Chrome(...)\<close> raises: \<open>self.driver\<close> is not assigned\<close>
  | Timeouts_raise
      \<comment> \<open>the browser started and setting its timeouts raises\<close>

text \<open>
  What the browser, the network and the libraries answer is not decided by the program.
  It is a parameter: every answer is a function of the moment of the call, which is the
  number of effects so far, and of the call's argument. A theorem for every \<open>env\<close> holds
  for every behaviour of the outside world. Log messages are not among the effects.
\<close>

record env =
  quote :: "string \<Rightarrow> string option"
    \<comment> \<open>\<open>urllib.parse.quote\<close>; \<open>None\<close> when it raises (a string it cannot encode)\<close>
  urljoin :: "string \<Rightarrow> string \<Rightarrow> string"
    \<comment> \<open>\<open>urllib.parse.urljoin\<close>\<close>
  launch :: "nat \<Rightarrow> launch_outcome"
  current_url_ok :: "nat \<Rightarrow> bool"
    \<comment> \<open>\<open>driver.current_url\<close> does not raise\<close>
  get_ok :: "nat \<Rightarrow> string \<Rightarrow> bool"
    \<comment> \<open>\<open>driver.get(url)\<close> does not raise\<close>
  wait_ok :: "nat \<Rightarrow> bool"
    \<comment> \<open>the awaited element appears before the timeout\<close>
  page_source :: "nat \<Rightarrow> soup option"
    \<comment> \<open>\<open>driver.page_source\<close>, parsed; \<open>None\<close> when reading it raises\<close>
  http_get :: "nat \<Rightarrow> string \<Rightarrow> soup option"
    \<comment> \<open>\<open>session.get(url)\<close> and \<open>raise_for_status()\<close>, parsed; \<open>None\<close> when either raises\<close>

record state =
  driver :: "nat option"
    \<comment> \<open>\<open>WebDriverManager.driver\<close>: \<open>None\<close>, or the browser started at that moment\<close>
  initialization_failed :: bool
    \<comment> \<open>\<open>WebDriverManager._initialization_failed\<close>, the poisoned flag\<close>
  effects :: "event list"
    \<comment> \<open>the effects so far, oldest first\<close>

definition initial_state :: state where
  \<comment> \<open>\<open>WebDriverManager.__init__\<close>\<close>
  "initial_state = \<lparr>driver = None, initialization_failed = False, effects = []\<rparr>"

definition now :: "state \<Rightarrow> nat" where
  "now st = length (effects st)"

definition emit :: "event \<Rightarrow> state \<Rightarrow> state" where
  "emit ev st = st\<lparr>effects := effects st @ [ev]\<rparr>"

section \<open>\<open>WebDriverManager\<close>\<close>

definition cleanup_driver :: "state \<Rightarrow> state" where
  \<comment> \<open>What \<open>quit()\<close> raises is swallowed.\<close>
  "cleanup_driver st =
     (if driver st \<noteq> None then (emit Quit st)\<lparr>driver := None\<rparr> else st)"

definition setup_driver :: "env \<Rightarrow> state \<Rightarrow> bool \<times> state" where
  "setup_driver e st =
     (if initialization_failed st then (False, st)
      else
        (let st1 = (if driver st \<noteq> None then cleanup_driver st else st);
             t = now st1;
             st2 = emit Launch st1
         in case launch e t of
              Launch_ok \<Rightarrow> (True, st2\<lparr>driver := Some t\<rparr>)
            | Launch_raises \<Rightarrow> (False, st2\<lparr>initialization_failed := True\<rparr>)
            | Timeouts_raise \<Rightarrow>
                (False, st2\<lparr>driver := Some t, initialization_failed := True\<rparr>)))"

definition is_driver_alive :: "env \<Rightarrow> state \<Rightarrow> bool \<times> state" where
  "is_driver_alive e st =
     (if initialization_failed st \<or> driver st = None then (False, st)
      else (current_url_ok e (now st), emit Current_url st))"

definition ensure_driver :: "env \<Rightarrow> state \<Rightarrow> bool \<times> state" where
  "ensure_driver e st =
     (if driver st = None then setup_driver e st
      else
        (case is_driver_alive e st of
           (True, st1) \<Rightarrow> (True, st1)
         | (False, st1) \<Rightarrow> setup_driver e st1))"

fun safe_get_loop ::
  "env \<Rightarrow> settings \<Rightarrow> string \<Rightarrow> nat \<Rightarrow> int \<Rightarrow> state \<Rightarrow> bool \<times> state" where
  \<comment> \<open>\<open>for attempt in range(max_retries)\<close>: the first number counts the attempts left.\<close>
  "safe_get_loop e g url 0 attempt st = (False, st)"
| "safe_get_loop e g url (Suc n) attempt st =
     (case ensure_driver e st of
        (False, st1) \<Rightarrow> (False, st1)
      | (True, st1) \<Rightarrow>
          (let st2 = emit (Get url) st1
           in if get_ok e (now st1) url then (True, st2)
              else if attempt < max_retries (scraping_config g) - 1
              then safe_get_loop e g url n (attempt + 1)
                     (emit (Sleep (retry_delay_min (scraping_config g))
                                  (retry_delay_max (scraping_config g))) st2)
              else (False, st2)))"

definition safe_get :: "env \<Rightarrow> settings \<Rightarrow> string \<Rightarrow> state \<Rightarrow> bool \<times> state" where
  "safe_get e g url st =
     (if initialization_failed st then (False, st)
      else safe_get_loop e g url (nat (max_retries (scraping_config g))) 0 st)"

section \<open>Products and exceptions\<close>

record product_info =
  name :: string
  url :: string
  specifications :: specs

datatype py_exception =
    ValueError string
  | AttributeError string
  | UnicodeEncodeError
      \<comment> \<open>raised by \<open>urllib.parse.quote\<close>\<close>
  | WebDriverException
      \<comment> \<open>raised by \<open>driver.page_source\<close>\<close>

definition py_slice_to :: "int \<Rightarrow> 'a list \<Rightarrow> 'a list" where
  \<comment> \<open>\<open>xs[:n]\<close>: a negative \<open>n\<close> counts from the end.\<close>
  "py_slice_to n xs =
     (if 0 \<le> n then take (nat n) xs else take (nat (int (length xs) + n)) xs)"

definition search_url :: "settings \<Rightarrow> string \<Rightarrow> string" where
  "search_url g quoted = base_url (config g) @ ''/en-gb/product/search?search='' @ quoted"

definition product_name_of :: "link_element \<Rightarrow> string \<Rightarrow> string" where
  \<comment> \<open>The title's text with its whitespace normalised, else the last segment of the URL.\<close>
  "product_name_of link product_url =
     (case product_title link of
        Some el \<Rightarrow> py_join '' '' (py_split_ws (get_text_sep_strip '' '' el))
      | None \<Rightarrow> last_segment (CHR ''/'') product_url)"

definition save_debug_html :: "settings \<Rightarrow> string \<Rightarrow> state \<Rightarrow> state" where
  \<comment> \<open>\<open>if config.save_debug_html: self._save_debug_html(...)\<close>, which never raises.\<close>
  "save_debug_html g filename st =
     (if server_config.save_debug_html (config g) then emit (Save_debug filename) st else st)"

section \<open>\<open>ProductScraper\<close>, the browser path\<close>

definition scrape_single_product ::
  "env \<Rightarrow> settings \<Rightarrow> link_element \<Rightarrow> nat \<Rightarrow> state \<Rightarrow> product_info option \<times> state"
  where
  \<comment> \<open>Every exception inside is caught and gives \<open>None\<close>. The wait for the product
      information may time out: the scraper goes on with what has loaded.\<close>
  "scrape_single_product e g link product_num st =
     (case href link of
        None \<Rightarrow> (None, st)
      | Some h \<Rightarrow>
          (let product_url = urljoin e (base_url (config g)) h;
               product_name = product_name_of link product_url
           in case safe_get e g product_url st of
                (False, st1) \<Rightarrow> (None, st1)
              | (True, st1) \<Rightarrow>
                  (let st2 = emit Wait_until st1;
                       st3 = emit Page_source st2
                   in case page_source e (now st2) of
                        None \<Rightarrow> (None, st3)
                      | Some soup \<Rightarrow>
                          (Some \<lparr>name = product_name, url = product_url,
                                  specifications = extract_specifications soup\<rparr>,
                           save_debug_html g (''product_'' @ py_str product_num @ ''.html'') st3))))"

fun scrape_links ::
  "env \<Rightarrow> settings \<Rightarrow> nat \<Rightarrow> link_element list \<Rightarrow> nat \<Rightarrow> state \<Rightarrow> product_info list \<times> state"
  where
  \<comment> \<open>\<open>for i, link in enumerate(product_links)\<close>, with \<open>n = len(product_links)\<close>.\<close>
  "scrape_links e g n [] i st = ([], st)"
| "scrape_links e g n (link # links) i st =
     (case scrape_single_product e g link (i + 1) st of
        (product, st1) \<Rightarrow>
          (let st2 = (if int i < int n - 1
                      then emit (Sleep (product_delay_min (scraping_config g))
                                       (product_delay_max (scraping_config g))) st1
                      else st1)
           in case scrape_links e g n links (i + 1) st2 of
                (rest, st3) \<Rightarrow>
                  ((case product of None \<Rightarrow> rest | Some p \<Rightarrow> p # rest), st3)))"

definition scrape_search_results ::
  "env \<Rightarrow> settings \<Rightarrow> string \<Rightarrow> state \<Rightarrow> (py_exception + product_info list) \<times> state" where
  "scrape_search_results e g query st =
     (case quote e query of
        None \<Rightarrow> (Inl UnicodeEncodeError, st)
      | Some quoted \<Rightarrow>
          (case safe_get e g (search_url g quoted) st of
             (False, st1) \<Rightarrow> (Inr [], st1)
           | (True, st1) \<Rightarrow>
               (let st2 = emit Wait_until st1
                in if \<not> wait_ok e (now st1) then (Inr [], st2)
                   else
                     (let st3 = emit Page_source st2
                      in case page_source e (now st2) of
                           None \<Rightarrow> (Inl WebDriverException, st3)
                         | Some soup \<Rightarrow>
                             (let st4 = save_debug_html g ''search_results.html'' st3
                              in if no_result soup then (Inr [], st4)
                                 else
                                   (let links =
                                          py_slice_to
                                            (max_products_per_search (scraping_config g))
                                            (product_links soup)
                                    in case scrape_links e g (length links) links 0 st4 of
                                         (products, st5) \<Rightarrow> (Inr products, st5)))))))"

section \<open>\<open>FallbackScraper\<close>, the HTTP path\<close>

definition scrape_single_product_fallback ::
  "env \<Rightarrow> settings \<Rightarrow> link_element \<Rightarrow> nat \<Rightarrow> state \<Rightarrow> product_info option \<times> state"
  where
  \<comment> \<open>\<open>product_num\<close> is passed and never read.\<close>
  "scrape_single_product_fallback e g link product_num st =
     (case href link of
        None \<Rightarrow> (None, st)
      | Some h \<Rightarrow>
          (let product_url = urljoin e (base_url (config g)) h;
               product_name = product_name_of link product_url;
               st1 = emit (Http_get product_url) st
           in case http_get e (now st) product_url of
                None \<Rightarrow> (None, st1)
              | Some soup \<Rightarrow>
                  (Some \<lparr>name = product_name, url = product_url,
                          specifications = extract_specifications_simple soup\<rparr>,
                   st1)))"

fun fallback_links ::
  "env \<Rightarrow> settings \<Rightarrow> nat \<Rightarrow> link_element list \<Rightarrow> nat \<Rightarrow> state \<Rightarrow> product_info list \<times> state"
  where
  "fallback_links e g n [] i st = ([], st)"
| "fallback_links e g n (link # links) i st =
     (case scrape_single_product_fallback e g link (i + 1) st of
        (product, st1) \<Rightarrow>
          (let st2 = (if int i < int n - 1 then emit (Sleep (1 / 2) 1) st1 else st1)
           in case fallback_links e g n links (i + 1) st2 of
                (rest, st3) \<Rightarrow>
                  ((case product of None \<Rightarrow> rest | Some p \<Rightarrow> p # rest), st3)))"

definition fallback_search_products ::
  "env \<Rightarrow> settings \<Rightarrow> string \<Rightarrow> state \<Rightarrow> (py_exception + product_info list) \<times> state" where
  \<comment> \<open>The URL is built before the \<open>try\<close>: only \<open>quote\<close> can make this function raise.\<close>
  "fallback_search_products e g query st =
     (case quote e query of
        None \<Rightarrow> (Inl UnicodeEncodeError, st)
      | Some quoted \<Rightarrow>
          (let st1 = emit (Http_get (search_url g quoted)) st
           in case http_get e (now st) (search_url g quoted) of
                None \<Rightarrow> (Inr [], st1)
              | Some soup \<Rightarrow>
                  if no_result soup then (Inr [], st1)
                  else
                    (let links =
                           py_slice_to (max_products_per_search (scraping_config g))
                             (product_links soup)
                     in case fallback_links e g (length links) links 0 st1 of
                          (products, st2) \<Rightarrow> (Inr products, st2))))"

section \<open>\<open>AsrockindServer.search_products\<close>, the orchestrator\<close>

definition browser_attempt ::
  "env \<Rightarrow> settings \<Rightarrow> string \<Rightarrow> state \<Rightarrow> product_info list \<times> state" where
  \<comment> \<open>\<open>products = []\<close>, then the browser search unless the session is poisoned; an
      exception of the browser search is logged and leaves \<open>products\<close> empty.\<close>
  "browser_attempt e g query st =
     (if \<not> initialization_failed st then
        (case scrape_search_results e g query st of
           (Inr products, st1) \<Rightarrow> (products, st1)
         | (Inl ex, st1) \<Rightarrow> ([], st1))
      else ([], st))"

definition backoff :: "settings \<Rightarrow> int \<Rightarrow> state \<Rightarrow> state" where
  \<comment> \<open>The \<open>except\<close> branch of an attempt: the doubled retry delay, unless this was the
      last attempt.\<close>
  "backoff g attempt st =
     (if attempt < max_retries (scraping_config g) - 1
      then emit (Sleep (retry_delay_min (scraping_config g) * 2)
                       (retry_delay_max (scraping_config g) * 2)) st
      else st)"

fun search_loop ::
  "env \<Rightarrow> settings \<Rightarrow> string \<Rightarrow> nat \<Rightarrow> int \<Rightarrow> state \<Rightarrow> product_info list \<times> state" where
  \<comment> \<open>\<open>for attempt in range(max_retries)\<close>: the first number counts the attempts left.\<close>
  "search_loop e g query 0 attempt st = ([], st)"
| "search_loop e g query (Suc n) attempt st =
     (let st1 = emit (Sleep (search_delay_min (scraping_config g))
                            (search_delay_max (scraping_config g))) st
      in case browser_attempt e g query st1 of
           (products, st2) \<Rightarrow>
             if products \<noteq> [] then (products, st2)
             else
               (case fallback_search_products e g query st2 of
                  (Inr products, st3) \<Rightarrow>
                    if products \<noteq> [] then (products, st3)
                    else search_loop e g query n (attempt + 1) st3
                | (Inl ex, st3) \<Rightarrow>
                    search_loop e g query n (attempt + 1) (backoff g attempt st3)))"

definition search_products ::
  "env \<Rightarrow> settings \<Rightarrow> string \<Rightarrow> state \<Rightarrow> product_info list \<times> state" where
  "search_products e g query st =
     search_loop e g query (nat (max_retries (scraping_config g))) 0 st"

section \<open>The tool boundary: \<open>call_tool\<close>\<close>

text \<open>
  The values of the \<open>arguments\<close> dict, as \<open>json\<close> decodes them; numbers are the
  integers.
\<close>

datatype jvalue =
    JNull
  | JBool bool
  | JInt int
  | JStr string
  | JList "jvalue list"
  | JDict "(string \<times> jvalue) list"

fun truthy :: "jvalue \<Rightarrow> bool" where
  \<comment> \<open>Python's truth value of an argument\<close>
  "truthy JNull = False"
| "truthy (JBool b) = b"
| "truthy (JInt n) = (n \<noteq> 0)"
| "truthy (JStr s) = (s \<noteq> [])"
| "truthy (JList xs) = (xs \<noteq> [])"
| "truthy (JDict kvs) = (kvs \<noteq> [])"

fun type_name :: "jvalue \<Rightarrow> string" where
  "type_name JNull = ''NoneType''"
| "type_name (JBool b) = ''bool''"
| "type_name (JInt n) = ''int''"
| "type_name (JStr s) = ''str''"
| "type_name (JList xs) = ''list''"
| "type_name (JDict kvs) = ''dict''"

fun str_of_exception :: "py_exception \<Rightarrow> string" where
  \<comment> \<open>\<open>str(e)\<close>; the two exceptions of the libraries never reach \<open>call_tool\<close>.\<close>
  "str_of_exception (ValueError msg) = msg"
| "str_of_exception (AttributeError msg) = msg"
| "str_of_exception UnicodeEncodeError = ''UnicodeEncodeError''"
| "str_of_exception WebDriverException = ''WebDriverException''"

datatype mcp_error = McpError string

record search_info =
  source :: string
  info_max_products_per_search :: int
  search_method :: string

record response_data =
  query :: string
  total_results :: nat
  products :: "product_info list"
  search_info :: search_info

definition SEARCH_PRODUCTS :: string where
  "SEARCH_PRODUCTS = ''asrock_industrial_product_search''"

definition no_strip_attribute :: "jvalue \<Rightarrow> py_exception" where
  \<comment> \<open>\<open>query.strip()\<close> on a value that is not a string\<close>
  "no_strip_attribute v =
     AttributeError ([CHR 0x27] @ type_name v @ [CHR 0x27] @ '' object has no attribute ''
                     @ [CHR 0x27] @ ''strip'' @ [CHR 0x27])"

definition format_response ::
  "settings \<Rightarrow> string \<Rightarrow> product_info list \<Rightarrow> state \<Rightarrow> response_data" where
  \<comment> \<open>\<open>response_data\<close>, the dict that \<open>json.dumps\<close> serialises\<close>
  "format_response g q result st =
     \<lparr>query = q,
      total_results = length result,
      products = result,
      search_info =
        \<lparr>source = ''ASRock Industrial website'',
         info_max_products_per_search = max_products_per_search (scraping_config g),
         search_method =
           (if \<not> initialization_failed st then ''Selenium + Fallback (requests)''
            else ''Fallback only (requests)'')\<rparr>\<rparr>"

definition call_tool_body ::
  "env \<Rightarrow> settings \<Rightarrow> string \<Rightarrow> (string \<rightharpoonup> jvalue) \<Rightarrow> state
     \<Rightarrow> (py_exception + response_data) \<times> state" where
  \<comment> \<open>The \<open>try\<close> block of \<open>call_tool\<close>.\<close>
  "call_tool_body e g tool arguments st =
     (if tool = SEARCH_PRODUCTS then
        (case arguments ''query'' of
           None \<Rightarrow> (Inl (ValueError ''Missing required argument: query''), st)
         | Some v \<Rightarrow>
             if \<not> truthy v
             then (Inl (ValueError ''Missing required argument: query''), st)
             else
               (case v of
                  JStr raw \<Rightarrow>
                    (let q = py_strip raw
                     in if length q < 2
                        then (Inl (ValueError
                                     ''Search query must be at least 2 characters long''), st)
                        else
                          (case search_products e g q st of
                             (result, st1) \<Rightarrow> (Inr (format_response g q result st1), st1)))
                | _ \<Rightarrow> (Inl (no_strip_attribute v), st)))
      else (Inl (ValueError (''Unknown tool: '' @ tool)), st))"

definition call_tool ::
  "env \<Rightarrow> settings \<Rightarrow> string \<Rightarrow> (string \<rightharpoonup> jvalue) \<Rightarrow> state
     \<Rightarrow> (mcp_error + response_data) \<times> state" where
  \<comment> \<open>\<open>except Exception as e: raise McpError(f"Error processing request: {str(e)}")\<close>\<close>
  "call_tool e g tool arguments st =
     (case call_tool_body e g tool arguments st of
        (Inl ex, st1) \<Rightarrow>
          (Inl (McpError (''Error processing request: '' @ str_of_exception ex)), st1)
      | (Inr response, st1) \<Rightarrow> (Inr response, st1))"

section \<open>The operations of a running server\<close>




section \<open>Observations on the effects\<close>

fun is_http_get :: "event \<Rightarrow> bool" where
  "is_http_get (Http_get u) = True"
| "is_http_get ev = False"

definition http_requests :: "state \<Rightarrow> event list" where
  "http_requests st = filter is_http_get (effects st)"


section \<open>Concrete scenarios\<close>

text \<open>
  A catalogue with one product, \<open>SBC-230 Single Board Computer\<close>, whose detail page has
  one specification table under the heading \<open>System\<close> with the row
  \<open>CPU | Intel Atom x6425E\<close>. The browser reads the results page first (its page source
  is read at moment 4) and the detail page afterwards; the HTTP client gets the pages by
  their URLs.
\<close>

definition scenario_search_page :: soup where
  "scenario_search_page =
     \<lparr>no_result = False,
      product_links =
        [\<lparr>href = Some ''/en-gb/SBC-230'',
          product_title = Some [''SBC-230 Single Board Computer'']\<rparr>],
      tables = [], desc_elements = []\<rparr>"

definition scenario_product_page :: soup where
  "scenario_product_page =
     \<lparr>no_result = False, product_links = [],
      tables =
        [\<lparr>classes = [''table'', ''table-spec''],
          prev_h3_title_sub = Some [''System''], prev_h3 = Some [''System''],
          prev_h2 = None, prev_h4 = None,
          rows = [[[''CPU''], [''Intel Atom x6425E'']]]\<rparr>],
      desc_elements = []\<rparr>"

definition scenario_env :: env where
  "scenario_env =
     \<lparr>quote = Some, urljoin = (\<lambda>base h. base @ h),
      launch = (\<lambda>t. Launch_ok), current_url_ok = (\<lambda>t. True),
      get_ok = (\<lambda>t u. True), wait_ok = (\<lambda>t. True),
      page_source =
        (\<lambda>t. if t \<le> 4 then Some scenario_search_page else Some scenario_product_page),
      http_get =
        (\<lambda>t u. if u = ''https://www.asrockind.com/en-gb/SBC-230''
               then Some scenario_product_page else Some scenario_search_page)\<rparr>"

definition scenario_products :: "product_info list" where
  "scenario_products =
     [\<lparr>name = ''SBC-230 Single Board Computer'',
       url = ''https://www.asrockind.com/en-gb/SBC-230'',
       specifications = [(''System - CPU'', ''Intel Atom x6425E'')]\<rparr>]"

definition scenario_final :: state where
  \<comment> \<open>the state after one browser search for \<open>SBC-230\<close>, started with no browser yet\<close>
  "scenario_final =
     \<lparr>driver = Some 1, initialization_failed = False,
      effects =
        [Sleep 1 2, Launch,
         Get ''https://www.asrockind.com/en-gb/product/search?search=SBC-230'',
         Wait_until, Page_source, Current_url,
         Get ''https://www.asrockind.com/en-gb/SBC-230'', Wait_until, Page_source]\<rparr>"


definition scenario_response :: response_data where
  \<comment> \<open>the response to the query \<open>SBC-230\<close>\<close>
  "scenario_response =
     \<lparr>query = ''SBC-230'', total_results = 1, products = scenario_products,
      search_info =
        \<lparr>source = ''ASRock Industrial website'', info_max_products_per_search = 3,
         search_method = ''Selenium + Fallback (requests)''\<rparr>\<rparr>"

text \<open>The same site when the search finds nothing: every page carries the no-result marker.\<close>

definition no_result_page :: soup where
  "no_result_page = \<lparr>no_result = True, product_links = [], tables = [], desc_elements = []\<rparr>"

definition empty_catalogue_env :: env where
  "empty_catalogue_env =
     scenario_env\<lparr>page_source := (\<lambda>t. Some no_result_page),
                  http_get := (\<lambda>t u. Some no_result_page)\<rparr>"

text \<open>A query that \<open>urllib.parse.quote\<close> cannot encode.\<close>

definition unquotable_env :: env where
  "unquotable_env = scenario_env\<lparr>quote := (\<lambda>s. None)\<rparr>"

text \<open>The same site when the network is down: no page loads in the browser and every HTTP
  request raises.\<close>

definition network_down_env :: env where
  "network_down_env =
     scenario_env\<lparr>get_ok := (\<lambda>t u. False), http_get := (\<lambda>t u. None)\<rparr>"

text \<open>A results page with two products, and a configuration whose product cap is negative.\<close>

definition two_product_page :: soup where
  "two_product_page =
     \<lparr>no_result = False,
      product_links =
        [\<lparr>href = Some ''/en-gb/SBC-230'',
          product_title = Some [''SBC-230 Single Board Computer'']\<rparr>,
         \<lparr>href = Some ''/en-gb/SBC-231'', product_title = None\<rparr>],
      tables = [], desc_elements = []\<rparr>"

definition two_product_env :: env where
  "two_product_env =
     scenario_env\<lparr>page_source :=
       (\<lambda>t. if t \<le> 4 then Some two_product_page else Some scenario_product_page)\<rparr>"

definition negative_cap_settings :: settings where
  "negative_cap_settings =
     default_settings\<lparr>scraping_config :=
       (scraping_config default_settings)\<lparr>max_products_per_search := - 1\<rparr>\<rparr>"

text \<open>Detail pages: a table that starts with a header row, a table under a heading whose
  text is blank, and pages with no table and a description.\<close>

definition header_row_page :: soup where
  "header_row_page =
     \<lparr>no_result = False, product_links = [],
      tables =
        [\<lparr>classes = [''table-spec''],
          prev_h3_title_sub = None, prev_h3 = None, prev_h2 = None, prev_h4 = None,
          rows = [[[''Specification''], [''Details'']],
                  [[''CPU''], [''Intel Atom x6425E'']]]\<rparr>],
      desc_elements = []\<rparr>"

definition blank_heading_table :: table_element where
  "blank_heading_table =
     \<lparr>classes = [''table-spec''],
      prev_h3_title_sub = Some ['' ''], prev_h3 = Some ['' ''],
      prev_h2 = None, prev_h4 = None,
      rows = [[[''CPU''], [''Intel Atom x6425E'']]]\<rparr>"

definition blank_heading_page :: soup where
  "blank_heading_page =
     \<lparr>no_result = False, product_links = [], tables = [blank_heading_table],
      desc_elements = []\<rparr>"

definition short_description_page :: soup where
  "short_description_page =
     \<lparr>no_result = False, product_links = [], tables = [],
      desc_elements = [[''Small SBC'']]\<rparr>"

definition description_page :: soup where
  "description_page =
     \<lparr>no_result = False, product_links = [], tables = [],
      desc_elements = [[''Small SBC''], ['' Fanless embedded box PC '']]\<rparr>"

definition long_description_page :: soup where
  "long_description_page =
     \<lparr>no_result = False, product_links = [], tables = [],
      desc_elements = [[replicate 501 (CHR ''x'')]]\<rparr>"

section \<open>The keys a table row can contribute\<close>

definition browser_row_keys :: "string \<Rightarrow> element list \<Rightarrow> string set" where
  "browser_row_keys category cells =
     (if 2 \<le> length cells then {full_key category (py_strip (text_of (cells ! 0)))} else {})"

definition fallback_row_keys :: "string \<Rightarrow> element list \<Rightarrow> string set" where
  "fallback_row_keys category cells =
     (if 2 \<le> length cells then {full_key category (get_text_strip (cells ! 0))} else {})"

section \<open>The poisoned flag\<close>

lemma emit_flag [simp]: "initialization_failed (emit ev st) = initialization_failed st"
  by (simp add: emit_def)

lemma save_debug_flag [simp]:
  "initialization_failed (save_debug_html g f st) = initialization_failed st"
  by (simp add: save_debug_html_def)

lemma cleanup_flag [simp]: "initialization_failed (cleanup_driver st) = initialization_failed st"
  by (simp add: cleanup_driver_def)




lemma safe_get_poisoned: "initialization_failed st \<Longrightarrow> safe_get e g u st = (False, st)"
  by (simp add: safe_get_def)





lemma backoff_flag [simp]: "initialization_failed (backoff g a st) = initialization_failed st"
  by (simp add: backoff_def)












section \<open>The orchestrator prefers the browser\<close>

lemma http_requests_emit:
  "http_requests (emit ev st) = http_requests st @ (if is_http_get ev then [ev] else [])"
  by (simp add: http_requests_def emit_def)

lemma http_requests_driver [simp]: "http_requests (st\<lparr>driver := d\<rparr>) = http_requests st"
  by (simp add: http_requests_def)

lemma http_requests_flag [simp]:
  "http_requests (st\<lparr>initialization_failed := b\<rparr>) = http_requests st"
  by (simp add: http_requests_def)

lemma cleanup_driver_http [simp]: "http_requests (cleanup_driver st) = http_requests st"
  by (simp add: cleanup_driver_def http_requests_emit)

lemma save_debug_http [simp]: "http_requests (save_debug_html g f st) = http_requests st"
  by (simp add: save_debug_html_def http_requests_emit)

lemma setup_driver_http: "http_requests (snd (setup_driver e st)) = http_requests st"
  by (simp add: setup_driver_def Let_def http_requests_emit split: launch_outcome.splits)

lemma is_driver_alive_http: "http_requests (snd (is_driver_alive e st)) = http_requests st"
  by (simp add: is_driver_alive_def http_requests_emit)

lemma ensure_driver_http: "ensure_driver e st = (b, st1) \<Longrightarrow> http_requests st1 = http_requests st"
proof -
  assume a: "ensure_driver e st = (b, st1)"
  obtain al sa where al: "is_driver_alive e st = (al, sa)"
    by (cases "is_driver_alive e st")
  have h1: "http_requests sa = http_requests st"
    using is_driver_alive_http [of e st] al by simp
  have h2: "http_requests (snd (setup_driver e sa)) = http_requests st"
    using setup_driver_http [of e sa] h1 by simp
  have h3: "http_requests (snd (setup_driver e st)) = http_requests st"
    by (rule setup_driver_http)
  show ?thesis
  proof (cases "driver st = None")
    case True
    then have "setup_driver e st = (b, st1)" using a by (simp add: ensure_driver_def)
    then show ?thesis using h3 by simp
  next
    case False
    show ?thesis
    proof (cases al)
      case True
      then have "st1 = sa" using a al False by (simp add: ensure_driver_def)
      then show ?thesis using h1 by simp
    next
      case False
      then have "setup_driver e sa = (b, st1)"
        using a al \<open>driver st \<noteq> None\<close> by (simp add: ensure_driver_def)
      then show ?thesis using h2 by simp
    qed
  qed
qed

lemma safe_get_loop_http:
  "safe_get_loop e g u n a st = (b, st1) \<Longrightarrow> http_requests st1 = http_requests st"
proof (induction n arbitrary: a st)
  case 0
  then show ?case by simp
next
  case (Suc n)
  obtain ok sa where en: "ensure_driver e st = (ok, sa)"
    by (cases "ensure_driver e st")
  have h1: "http_requests sa = http_requests st" using ensure_driver_http [OF en] .
  show ?case
  proof (cases ok)
    case False
    then show ?thesis using Suc.prems en h1 by simp
  next
    case True
    let ?sb = "emit (Get u) sa"
    have h2: "http_requests ?sb = http_requests st" using h1 by (simp add: http_requests_emit)
    show ?thesis
    proof (cases "get_ok e (now sa) u")
      case True
      then show ?thesis using Suc.prems en \<open>ok\<close> h2 by (simp add: Let_def)
    next
      case False
      note nok = this
      show ?thesis
      proof (cases "a < max_retries (scraping_config g) - 1")
        case True
        let ?sc = "emit (Sleep (retry_delay_min (scraping_config g))
                               (retry_delay_max (scraping_config g))) ?sb"
        have r: "safe_get_loop e g u n (a + 1) ?sc = (b, st1)"
          using Suc.prems en \<open>ok\<close> nok True by (simp add: Let_def)
        have "http_requests st1 = http_requests ?sc" using Suc.IH [OF r] .
        then show ?thesis using h2 by (simp add: http_requests_emit)
      next
        case False
        then show ?thesis using Suc.prems en \<open>ok\<close> nok h2 by (simp add: Let_def)
      qed
    qed
  qed
qed

lemma safe_get_http:
  "safe_get e g u st = (b, st1) \<Longrightarrow> http_requests st1 = http_requests st"
  by (auto simp add: safe_get_def split: if_splits dest: safe_get_loop_http)

lemma scrape_single_product_http:
  "scrape_single_product e g l i st = (p, st1) \<Longrightarrow> http_requests st1 = http_requests st"
proof -
  assume a: "scrape_single_product e g l i st = (p, st1)"
  show ?thesis
  proof (cases "href l")
    case None
    then show ?thesis using a by (simp add: scrape_single_product_def)
  next
    case (Some h)
    let ?u = "urljoin e (base_url (config g)) h"
    obtain ok sa where sg: "safe_get e g ?u st = (ok, sa)"
      by (cases "safe_get e g ?u st")
    have h1: "http_requests sa = http_requests st" using safe_get_http [OF sg] .
    show ?thesis
    proof (cases ok)
      case False
      then show ?thesis using a Some sg h1 by (simp add: scrape_single_product_def Let_def)
    next
      case True
      let ?sc = "emit Page_source (emit Wait_until sa)"
      have h3: "http_requests ?sc = http_requests st"
        using h1 by (simp add: http_requests_emit)
      show ?thesis
      proof (cases "page_source e (now (emit Wait_until sa))")
        case None
        have "st1 = ?sc"
          using a \<open>href l = Some h\<close> sg True None
          by (simp add: scrape_single_product_def Let_def)
        then show ?thesis using h3 by simp
      next
        case (Some soup)
        have "st1 = save_debug_html g (''product_'' @ py_str i @ ''.html'') ?sc"
          using a \<open>href l = Some h\<close> sg True Some
          by (simp add: scrape_single_product_def Let_def)
        then show ?thesis using h3 by simp
      qed
    qed
  qed
qed

lemma scrape_links_http:
  "scrape_links e g n links i st = (ps, st1) \<Longrightarrow> http_requests st1 = http_requests st"
proof (induction links arbitrary: i st ps st1)
  case Nil
  then show ?case by simp
next
  case (Cons l links)
  obtain p sa where s: "scrape_single_product e g l (i + 1) st = (p, sa)"
    by (cases "scrape_single_product e g l (i + 1) st")
  let ?sb = "if int i < int n - 1
             then emit (Sleep (product_delay_min (scraping_config g))
                              (product_delay_max (scraping_config g))) sa
             else sa"
  obtain rest sc where r: "scrape_links e g n links (i + 1) ?sb = (rest, sc)"
    by (cases "scrape_links e g n links (i + 1) ?sb")
  have "st1 = sc" using Cons.prems s r by (simp add: Let_def)
  moreover have "http_requests sc = http_requests ?sb" using Cons.IH [OF r] .
  moreover have "http_requests ?sb = http_requests sa" by (simp add: http_requests_emit)
  moreover have "http_requests sa = http_requests st" using scrape_single_product_http [OF s] .
  ultimately show ?case by simp
qed

lemma scrape_search_results_http:
  "scrape_search_results e g q st = (r, st1) \<Longrightarrow> http_requests st1 = http_requests st"
proof -
  assume a: "scrape_search_results e g q st = (r, st1)"
  show ?thesis
  proof (cases "quote e q")
    case None
    then show ?thesis using a by (simp add: scrape_search_results_def)
  next
    case (Some quoted)
    obtain ok sa where sg: "safe_get e g (search_url g quoted) st = (ok, sa)"
      by (cases "safe_get e g (search_url g quoted) st")
    have h1: "http_requests sa = http_requests st" using safe_get_http [OF sg] .
    show ?thesis
    proof (cases "ok \<and> wait_ok e (now sa)")
      case False
      then show ?thesis
        using a Some sg h1
        by (cases ok) (auto simp add: scrape_search_results_def Let_def http_requests_emit)
    next
      case True
      note live = this
      show ?thesis
      proof (cases "page_source e (now (emit Wait_until sa))")
        case None
        then show ?thesis
          using a Some sg h1 live
          by (auto simp add: scrape_search_results_def Let_def http_requests_emit)
      next
        case (Some soup)
        let ?sd = "save_debug_html g ''search_results.html''
                     (emit Page_source (emit Wait_until sa))"
        have h4: "http_requests ?sd = http_requests st"
          using h1 by (simp add: http_requests_emit)
        show ?thesis
        proof (cases "no_result soup")
          case True
          then show ?thesis
            using a \<open>quote e q = Some quoted\<close> sg live Some h4
            by (simp add: scrape_search_results_def Let_def)
        next
          case False
          let ?links = "py_slice_to (max_products_per_search (scraping_config g))
                          (product_links soup)"
          obtain ps se where sl: "scrape_links e g (length ?links) ?links 0 ?sd = (ps, se)"
            by (cases "scrape_links e g (length ?links) ?links 0 ?sd")
          have "st1 = se"
            using a \<open>quote e q = Some quoted\<close> sg live Some False sl
            by (simp add: scrape_search_results_def Let_def)
          then show ?thesis using scrape_links_http [OF sl] h4 by simp
        qed
      qed
    qed
  qed
qed


lemma scrape_search_results_poisoned_empty:
  assumes "initialization_failed st"
    and "scrape_search_results e g q st = (Inr found, st1)"
  shows "found = []"
proof (cases "quote e q")
  case None
  then show ?thesis using assms(2) by (simp add: scrape_search_results_def)
next
  case (Some quoted)
  then show ?thesis
    using assms(2) safe_get_poisoned [OF assms(1), of e g "search_url g quoted"]
    by (simp add: scrape_search_results_def)
qed

text \<open>
  C1. In any attempt of the search loop, when the browser search, run after the
  pre-search delay, returns one or more products, the loop returns exactly that list in
  the state the browser search left: nothing happens afterwards, so no further attempt is
  made, and the attempt has sent no request of the HTTP fallback scraper.
\<close>

theorem browser_hit_short_circuits:
  assumes "scrape_search_results e g q
             (emit (Sleep (search_delay_min (scraping_config g))
                          (search_delay_max (scraping_config g))) st) = (Inr found, st1)"
    and "found \<noteq> []"
  shows "search_loop e g q (Suc n) attempt st = (found, st1)
         \<and> http_requests st1 = http_requests st"
proof -
  let ?s = "emit (Sleep (search_delay_min (scraping_config g))
                        (search_delay_max (scraping_config g))) st"
  have "\<not> initialization_failed ?s"
    using scrape_search_results_poisoned_empty [OF _ assms(1)] assms(2) by blast
  then have "browser_attempt e g q ?s = (found, st1)"
    using assms(1) by (simp add: browser_attempt_def)
  then have "search_loop e g q (Suc n) attempt st = (found, st1)"
    using assms(2) by (simp add: Let_def)
  moreover have "http_requests st1 = http_requests st"
    using scrape_search_results_http [OF assms(1)] by (simp add: http_requests_emit)
  ultimately show ?thesis by simp
qed

theorem browser_hit_short_circuits_witness:
  "scenario_products \<noteq> []
   \<and> scrape_search_results scenario_env default_settings ''SBC-230''
         (emit (Sleep 1 2) initial_state)
       = (Inr scenario_products, scenario_final)
   \<and> search_loop scenario_env default_settings ''SBC-230'' (Suc 1) 0 initial_state
       = (scenario_products, scenario_final)
   \<and> http_requests scenario_final = http_requests initial_state"
proof -
  have d: "search_delay_min (scraping_config default_settings) = 1
           \<and> search_delay_max (scraping_config default_settings) = 2"
    by (simp add: default_settings_def)
  have h2: "scrape_search_results scenario_env default_settings ''SBC-230''
              (emit (Sleep (search_delay_min (scraping_config default_settings))
                           (search_delay_max (scraping_config default_settings)))
                 initial_state)
            = (Inr scenario_products, scenario_final)"
    by code_simp
  have h3: "scenario_products \<noteq> []"
    by (simp add: scenario_products_def)
  show ?thesis
    using d h2 h3 browser_hit_short_circuits [OF h2 h3, of 1 0] by simp
qed

section \<open>The product cap\<close>

lemma py_slice_to_length: "0 \<le> n \<Longrightarrow> int (length (py_slice_to n xs)) \<le> n"
  by (simp add: py_slice_to_def)

lemma scrape_links_length:
  "scrape_links e g n links i st = (ps, st1) \<Longrightarrow> length ps \<le> length links"
proof (induction links arbitrary: i st ps st1)
  case Nil
  then show ?case by simp
next
  case (Cons l links)
  obtain p sa where s: "scrape_single_product e g l (i + 1) st = (p, sa)"
    by (cases "scrape_single_product e g l (i + 1) st")
  let ?sb = "if int i < int n - 1
             then emit (Sleep (product_delay_min (scraping_config g))
                              (product_delay_max (scraping_config g))) sa
             else sa"
  obtain rest sc where r: "scrape_links e g n links (i + 1) ?sb = (rest, sc)"
    by (cases "scrape_links e g n links (i + 1) ?sb")
  have "ps = (case p of None \<Rightarrow> rest | Some x \<Rightarrow> x # rest)"
    using Cons.prems s r by (simp add: Let_def)
  moreover have "length rest \<le> length links" using Cons.IH [OF r] .
  ultimately show ?case by (cases p) simp_all
qed

lemma fallback_links_length:
  "fallback_links e g n links i st = (ps, st1) \<Longrightarrow> length ps \<le> length links"
proof (induction links arbitrary: i st ps st1)
  case Nil
  then show ?case by simp
next
  case (Cons l links)
  obtain p sa where s: "scrape_single_product_fallback e g l (i + 1) st = (p, sa)"
    by (cases "scrape_single_product_fallback e g l (i + 1) st")
  let ?sb = "if int i < int n - 1 then emit (Sleep (1 / 2) 1) sa else sa"
  obtain rest sc where r: "fallback_links e g n links (i + 1) ?sb = (rest, sc)"
    by (cases "fallback_links e g n links (i + 1) ?sb")
  have "ps = (case p of None \<Rightarrow> rest | Some x \<Rightarrow> x # rest)"
    using Cons.prems s r by (simp add: Let_def)
  moreover have "length rest \<le> length links" using Cons.IH [OF r] .
  ultimately show ?case by (cases p) simp_all
qed

lemma scrape_search_results_length:
  assumes "0 \<le> max_products_per_search (scraping_config g)"
    and "scrape_search_results e g q st = (Inr ps, st1)"
  shows "int (length ps) \<le> max_products_per_search (scraping_config g)"
proof (cases "quote e q")
  case None
  then show ?thesis using assms(2) by (simp add: scrape_search_results_def)
next
  case (Some quoted)
  obtain ok sa where sg: "safe_get e g (search_url g quoted) st = (ok, sa)"
    by (cases "safe_get e g (search_url g quoted) st")
  show ?thesis
  proof (cases "ok \<and> wait_ok e (now sa)")
    case False
    then have "ps = []"
      using assms(2) Some sg
      by (cases ok) (auto simp add: scrape_search_results_def Let_def)
    then show ?thesis using assms(1) by simp
  next
    case True
    note live = this
    show ?thesis
    proof (cases "page_source e (now (emit Wait_until sa))")
      case None
      then show ?thesis
        using assms(2) \<open>quote e q = Some quoted\<close> sg live
        by (simp add: scrape_search_results_def Let_def)
    next
      case (Some soup)
      let ?sd = "save_debug_html g ''search_results.html''
                   (emit Page_source (emit Wait_until sa))"
      show ?thesis
      proof (cases "no_result soup")
        case True
        then have "ps = []"
          using assms(2) \<open>quote e q = Some quoted\<close> sg live Some
          by (simp add: scrape_search_results_def Let_def)
        then show ?thesis using assms(1) by simp
      next
        case False
        let ?links = "py_slice_to (max_products_per_search (scraping_config g))
                        (product_links soup)"
        obtain found se where sl: "scrape_links e g (length ?links) ?links 0 ?sd = (found, se)"
          by (cases "scrape_links e g (length ?links) ?links 0 ?sd")
        have "ps = found"
          using assms(2) \<open>quote e q = Some quoted\<close> sg live Some False sl
          by (simp add: scrape_search_results_def Let_def)
        then have "length ps \<le> length ?links" using scrape_links_length [OF sl] by simp
        then show ?thesis using py_slice_to_length [OF assms(1), of "product_links soup"] by linarith
      qed
    qed
  qed
qed

lemma fallback_search_products_length:
  assumes "0 \<le> max_products_per_search (scraping_config g)"
    and "fallback_search_products e g q st = (Inr ps, st1)"
  shows "int (length ps) \<le> max_products_per_search (scraping_config g)"
proof (cases "quote e q")
  case None
  then show ?thesis using assms(2) by (simp add: fallback_search_products_def)
next
  case (Some quoted)
  let ?sa = "emit (Http_get (search_url g quoted)) st"
  show ?thesis
  proof (cases "http_get e (now st) (search_url g quoted)")
    case None
    then have "ps = []"
      using assms(2) Some by (simp add: fallback_search_products_def Let_def)
    then show ?thesis using assms(1) by simp
  next
    case (Some soup)
    show ?thesis
    proof (cases "no_result soup")
      case True
      then have "ps = []"
        using assms(2) \<open>quote e q = Some quoted\<close> Some
        by (simp add: fallback_search_products_def Let_def)
      then show ?thesis using assms(1) by simp
    next
      case False
      let ?links = "py_slice_to (max_products_per_search (scraping_config g))
                      (product_links soup)"
      obtain found se where sl: "fallback_links e g (length ?links) ?links 0 ?sa = (found, se)"
        by (cases "fallback_links e g (length ?links) ?links 0 ?sa")
      have "ps = found"
        using assms(2) \<open>quote e q = Some quoted\<close> Some False sl
        by (simp add: fallback_search_products_def Let_def)
      then have "length ps \<le> length ?links" using fallback_links_length [OF sl] by simp
      then show ?thesis using py_slice_to_length [OF assms(1), of "product_links soup"] by linarith
    qed
  qed
qed

lemma browser_attempt_length:
  assumes "0 \<le> max_products_per_search (scraping_config g)"
    and "browser_attempt e g q st = (ps, st1)"
  shows "int (length ps) \<le> max_products_per_search (scraping_config g)"
proof (cases "initialization_failed st")
  case True
  then have "ps = []" using assms(2) by (simp add: browser_attempt_def)
  then show ?thesis using assms(1) by simp
next
  case False
  obtain r sa where sr: "scrape_search_results e g q st = (r, sa)"
    by (cases "scrape_search_results e g q st")
  show ?thesis
  proof (cases r)
    case (Inl ex)
    then have "ps = []" using assms(2) False sr by (simp add: browser_attempt_def)
    then show ?thesis using assms(1) by simp
  next
    case (Inr found)
    then have "ps = found" using assms(2) False sr by (simp add: browser_attempt_def)
    then show ?thesis using scrape_search_results_length [OF assms(1)] sr Inr by simp
  qed
qed

lemma search_loop_length:
  assumes "0 \<le> max_products_per_search (scraping_config g)"
  shows "int (length (fst (search_loop e g q n a st))) \<le> max_products_per_search (scraping_config g)"
proof (induction n arbitrary: a st)
  case 0
  show ?case using assms by simp
next
  case (Suc n)
  let ?s1 = "emit (Sleep (search_delay_min (scraping_config g))
                         (search_delay_max (scraping_config g))) st"
  obtain bp s2 where b: "browser_attempt e g q ?s1 = (bp, s2)"
    by (cases "browser_attempt e g q ?s1")
  have lb: "int (length bp) \<le> max_products_per_search (scraping_config g)"
    using browser_attempt_length [OF assms b] .
  show ?case
  proof (cases "bp \<noteq> []")
    case True
    then show ?thesis using b lb by (simp add: Let_def)
  next
    case False
    obtain r s3 where f: "fallback_search_products e g q s2 = (r, s3)"
      by (cases "fallback_search_products e g q s2")
    show ?thesis
    proof (cases r)
      case (Inl ex)
      then show ?thesis
        using b False f Suc.IH [of "a + 1" "backoff g a s3"] by (simp add: Let_def)
    next
      case (Inr fp)
      have lf: "int (length fp) \<le> max_products_per_search (scraping_config g)"
        using fallback_search_products_length [OF assms] f Inr by simp
      show ?thesis
        using b False f Inr lf Suc.IH [of "a + 1" s3] by (simp add: Let_def)
    qed
  qed
qed

text \<open>
  C5 (amended). When \<open>max_products_per_search\<close> is not negative, the browser search, the
  fallback search and the orchestrator each return at most \<open>max_products_per_search\<close>
  products.
\<close>

theorem product_count_capped:
  assumes "0 \<le> max_products_per_search (scraping_config g)"
  shows "(\<forall>ps st1. scrape_search_results e g q st = (Inr ps, st1)
            \<longrightarrow> int (length ps) \<le> max_products_per_search (scraping_config g))
         \<and> (\<forall>ps st1. fallback_search_products e g q st = (Inr ps, st1)
            \<longrightarrow> int (length ps) \<le> max_products_per_search (scraping_config g))
         \<and> int (length (fst (search_products e g q st)))
             \<le> max_products_per_search (scraping_config g)"
  using scrape_search_results_length [OF assms] fallback_search_products_length [OF assms]
    search_loop_length [OF assms]
  by (simp add: search_products_def)

theorem product_count_capped_witness:
  "0 \<le> max_products_per_search (scraping_config default_settings)
   \<and> fst (scrape_search_results two_product_env default_settings ''SBC'' initial_state)
       = Inr (fst (search_products two_product_env default_settings ''SBC'' initial_state))
   \<and> length (fst (search_products two_product_env default_settings ''SBC'' initial_state)) = 2
   \<and> fst (fallback_search_products scenario_env default_settings ''SBC-230'' initial_state)
       = Inr scenario_products
   \<and> int (length scenario_products) \<le> max_products_per_search (scraping_config default_settings)
   \<and> int (length (fst (search_products two_product_env default_settings ''SBC''
                          initial_state)))
       \<le> max_products_per_search (scraping_config default_settings)"
proof -
  have h: "0 \<le> max_products_per_search (scraping_config default_settings)"
    by (simp add: default_settings_def)
  have b: "fst (scrape_search_results two_product_env default_settings ''SBC'' initial_state)
           = Inr (fst (search_products two_product_env default_settings ''SBC'' initial_state))"
    by code_simp
  have n: "length (fst (search_products two_product_env default_settings ''SBC''
                          initial_state)) = 2"
    by code_simp
  have f: "fallback_search_products scenario_env default_settings ''SBC-230'' initial_state
           = (Inr scenario_products,
              snd (fallback_search_products scenario_env default_settings ''SBC-230''
                     initial_state))"
    by code_simp
  note cap = product_count_capped [OF h, of scenario_env "''SBC-230''" initial_state]
  note cap2 = product_count_capped [OF h, of two_product_env "''SBC''" initial_state]
  have c2: "int (length scenario_products)
            \<le> max_products_per_search (scraping_config default_settings)"
    using cap [THEN conjunct2, THEN conjunct1, THEN spec, THEN spec, THEN mp, OF f] .
  have c3: "int (length (fst (search_products two_product_env default_settings ''SBC''
                                initial_state)))
            \<le> max_products_per_search (scraping_config default_settings)"
    using cap2 [THEN conjunct2, THEN conjunct2] .
  have f': "fst (fallback_search_products scenario_env default_settings ''SBC-230''
                   initial_state)
            = Inr scenario_products"
    by code_simp
  show ?thesis
    using h b n f' c2 c3 by simp
qed

text \<open>
  With \<open>max_products_per_search = -1\<close> the slice \<open>links[:-1]\<close> drops the last of the two
  links, and the search returns one product, which is more than the cap.
\<close>

theorem negative_cap_counterexample:
  "max_products_per_search (scraping_config negative_cap_settings) = - 1
   \<and> length (fst (search_products two_product_env negative_cap_settings ''SBC''
                     initial_state)) = 1
   \<and> \<not> int (length (fst (search_products two_product_env negative_cap_settings ''SBC''
                            initial_state)))
       \<le> max_products_per_search (scraping_config negative_cap_settings)"
  by code_simp

section \<open>The backoff between attempts\<close>

text \<open>
  The doubled delay stands in the handler of an attempt, and the only exception that
  reaches the handler is the one \<open>urllib.parse.quote\<close> raises in the fallback scraper:
  what the browser raises is caught inside the attempt, and what the HTTP client raises
  is turned into an empty list by the fallback scraper itself.
\<close>

lemma fallback_raises_only_unquotable:
  assumes "fallback_search_products e g q st = (Inl ex, st1)"
  shows "quote e q = None \<and> ex = UnicodeEncodeError \<and> st1 = st"
proof (cases "quote e q")
  case None
  then show ?thesis using assms by (simp add: fallback_search_products_def)
next
  case (Some quoted)
  let ?sa = "emit (Http_get (search_url g quoted)) st"
  show ?thesis
  proof (cases "http_get e (now st) (search_url g quoted)")
    case None
    then show ?thesis
      using assms Some by (simp add: fallback_search_products_def Let_def)
  next
    case (Some soup)
    let ?links = "py_slice_to (max_products_per_search (scraping_config g))
                    (product_links soup)"
    obtain found se where sl: "fallback_links e g (length ?links) ?links 0 ?sa = (found, se)"
      by (cases "fallback_links e g (length ?links) ?links 0 ?sa")
    show ?thesis
      using assms \<open>quote e q = Some quoted\<close> Some sl
      by (cases "no_result soup") (simp_all add: fallback_search_products_def Let_def)
  qed
qed

text \<open>
  C6. With two attempts configured, the first attempt is not the last. When the catalogue
  has no match, both paths return an empty list in the first attempt, and the second
  attempt follows the fallback's request directly: the doubled delay \<open>Sleep 4 8\<close> is
  not among the effects. The same happens when the network is down, where the browser
  gives up after its own retry delay \<open>Sleep 2 4\<close> and the fallback's request raises. The
  doubled delay is slept only for a query that cannot be encoded.
\<close>

theorem empty_results_no_backoff:
  "max_retries (scraping_config default_settings) = 2
   \<and> retry_delay_min (scraping_config default_settings) * 2 = 4
   \<and> retry_delay_max (scraping_config default_settings) * 2 = 8
   \<and> fst (browser_attempt empty_catalogue_env default_settings ''zzzznoexist''
            (emit (Sleep 1 2) initial_state)) = []
   \<and> fst (fallback_search_products empty_catalogue_env default_settings ''zzzznoexist''
            (snd (browser_attempt empty_catalogue_env default_settings ''zzzznoexist''
                    (emit (Sleep 1 2) initial_state)))) = Inr []
   \<and> effects (snd (search_products empty_catalogue_env default_settings ''zzzznoexist''
                     initial_state))
       = [Sleep 1 2, Launch,
          Get ''https://www.asrockind.com/en-gb/product/search?search=zzzznoexist'',
          Wait_until, Page_source,
          Http_get ''https://www.asrockind.com/en-gb/product/search?search=zzzznoexist'',
          Sleep 1 2, Current_url,
          Get ''https://www.asrockind.com/en-gb/product/search?search=zzzznoexist'',
          Wait_until, Page_source,
          Http_get ''https://www.asrockind.com/en-gb/product/search?search=zzzznoexist'']
   \<and> Sleep 4 8
       \<notin> set (effects (snd (search_products empty_catalogue_env default_settings
                                ''zzzznoexist'' initial_state)))
   \<and> fst (browser_attempt network_down_env default_settings ''SBC-230''
            (emit (Sleep 1 2) initial_state)) = []
   \<and> fst (fallback_search_products network_down_env default_settings ''SBC-230''
            (snd (browser_attempt network_down_env default_settings ''SBC-230''
                    (emit (Sleep 1 2) initial_state)))) = Inr []
   \<and> effects (snd (search_products network_down_env default_settings ''SBC-230''
                     initial_state))
       = [Sleep 1 2, Launch,
          Get ''https://www.asrockind.com/en-gb/product/search?search=SBC-230'',
          Sleep 2 4, Current_url,
          Get ''https://www.asrockind.com/en-gb/product/search?search=SBC-230'',
          Http_get ''https://www.asrockind.com/en-gb/product/search?search=SBC-230'',
          Sleep 1 2, Current_url,
          Get ''https://www.asrockind.com/en-gb/product/search?search=SBC-230'',
          Sleep 2 4, Current_url,
          Get ''https://www.asrockind.com/en-gb/product/search?search=SBC-230'',
          Http_get ''https://www.asrockind.com/en-gb/product/search?search=SBC-230'']
   \<and> Sleep 4 8
       \<notin> set (effects (snd (search_products network_down_env default_settings
                                ''SBC-230'' initial_state)))
   \<and> effects (snd (search_products unquotable_env default_settings ''SBC-230''
                     initial_state))
       = [Sleep 1 2, Sleep 4 8, Sleep 1 2]"
  by code_simp

section \<open>Properties of the tool boundary\<close>

lemma call_tool_scenario:
  "call_tool scenario_env default_settings SEARCH_PRODUCTS
     [''query'' \<mapsto> JStr ''  SBC-230 ''] initial_state
   = (Inr scenario_response, scenario_final)"
  by code_simp

lemma strip_one_letter: "py_strip '' a '' = ''a''"
  by code_simp

lemma py_strip_unchanged:
  assumes "raw = [] \<or> (\<not> py_isspace (hd raw) \<and> \<not> py_isspace (last raw))"
  shows "py_strip raw = raw"
proof (cases "raw = []")
  case True
  then show ?thesis by (simp add: py_strip_def)
next
  case False
  then have a: "\<not> py_isspace (hd raw)" and b: "\<not> py_isspace (last raw)"
    using assms by simp_all
  have "dropWhile py_isspace raw = raw"
    using False a by (cases raw) simp_all
  moreover have "dropWhile py_isspace (rev raw) = rev raw"
    using False b by (cases "rev raw") (simp_all add: last_rev [symmetric] hd_rev)
  ultimately show ?thesis by (simp add: py_strip_def)
qed

text \<open>
  C2. When the query is missing, or is a string whose trimmed length is below 2, the
  product-search tool raises \<open>McpError\<close> with the validation message, and the state is
  the one before the call: no sleep, no browser action and no HTTP request has happened.
\<close>

theorem invalid_query_rejected:
  assumes "arguments ''query'' = None
           \<or> (\<exists>raw. arguments ''query'' = Some (JStr raw) \<and> length (py_strip raw) < 2)"
  shows "call_tool e g SEARCH_PRODUCTS arguments st
         = (Inl (McpError
                   (''Error processing request: ''
                    @ (if arguments ''query'' = None \<or> arguments ''query'' = Some (JStr [])
                       then ''Missing required argument: query''
                       else ''Search query must be at least 2 characters long''))),
            st)"
proof (cases "arguments ''query''")
  case None
  then show ?thesis by (simp add: call_tool_def call_tool_body_def)
next
  case (Some v)
  then obtain raw where v: "v = JStr raw" and short: "length (py_strip raw) < 2"
    using assms by auto
  show ?thesis
  proof (cases "raw = []")
    case True
    then show ?thesis using Some v by (simp add: call_tool_def call_tool_body_def)
  next
    case False
    then show ?thesis
      using Some v short by (simp add: call_tool_def call_tool_body_def Let_def)
  qed
qed

theorem invalid_query_rejected_witness:
  "call_tool scenario_env default_settings SEARCH_PRODUCTS Map.empty initial_state
   = (Inl (McpError ''Error processing request: Missing required argument: query''),
      initial_state)
   \<and> length (py_strip '' a '') < 2
   \<and> call_tool scenario_env default_settings SEARCH_PRODUCTS [''query'' \<mapsto> JStr '' a '']
         initial_state
       = (Inl (McpError
                 ''Error processing request: Search query must be at least 2 characters long''),
          initial_state)"
proof -
  have h1: "Map.empty ''query'' = None
            \<or> (\<exists>raw. Map.empty ''query'' = Some (JStr raw) \<and> length (py_strip raw) < 2)"
    by simp
  have s: "length (py_strip '' a '') < 2"
    by (simp add: strip_one_letter)
  have h2: "[''query'' \<mapsto> JStr '' a ''] ''query'' = None
            \<or> (\<exists>raw. [''query'' \<mapsto> JStr '' a ''] ''query'' = Some (JStr raw)
                      \<and> length (py_strip raw) < 2)"
    using s by simp
  show ?thesis
    using s
      invalid_query_rejected [where arguments = Map.empty and e = scenario_env
        and g = default_settings and st = initial_state, OF h1]
      invalid_query_rejected [where arguments = "[''query'' \<mapsto> JStr '' a '']"
        and e = scenario_env and g = default_settings and st = initial_state, OF h2]
    by simp
qed

text \<open>
  C3. In every response of the tool, \<open>total_results\<close> is the length of \<open>products\<close>.
\<close>

theorem total_results_is_length:
  assumes "call_tool e g tool arguments st = (Inr response, st1)"
  shows "total_results response = length (products response)"
proof -
  obtain r sa where b: "call_tool_body e g tool arguments st = (r, sa)"
    by (cases "call_tool_body e g tool arguments st")
  have r: "r = Inr response"
    using assms b by (cases r) (simp_all add: call_tool_def)
  have "\<exists>q result sb. response = format_response g q result sb"
    using b r
    by (auto simp add: call_tool_body_def Let_def
        split: if_splits option.splits jvalue.splits prod.splits)
  then show ?thesis by (auto simp add: format_response_def)
qed

theorem total_results_is_length_witness:
  "call_tool scenario_env default_settings SEARCH_PRODUCTS
     [''query'' \<mapsto> JStr ''  SBC-230 ''] initial_state
   = (Inr scenario_response, scenario_final)
   \<and> total_results scenario_response = length (products scenario_response)
   \<and> length (products scenario_response) = 1"
  using call_tool_scenario total_results_is_length [OF call_tool_scenario]
  by (simp add: scenario_response_def scenario_products_def)

text \<open>
  C10. For a query string whose trimmed form has at least 2 characters, the tool answers
  with a response; the search was run on the trimmed query, the response carries its
  products and echoes the trimmed query; and when the input neither starts nor ends with
  whitespace the echo is the input itself.
\<close>

theorem echoed_query_is_trimmed:
  assumes "arguments ''query'' = Some (JStr raw)"
    and "2 \<le> length (py_strip raw)"
  shows "\<exists>response st1.
           call_tool e g SEARCH_PRODUCTS arguments st = (Inr response, st1)
           \<and> search_products e g (py_strip raw) st = (products response, st1)
           \<and> query response = py_strip raw
           \<and> (\<not> py_isspace (hd raw) \<and> \<not> py_isspace (last raw) \<longrightarrow> query response = raw)"
proof -
  obtain result sa where s: "search_products e g (py_strip raw) st = (result, sa)"
    by (cases "search_products e g (py_strip raw) st")
  have ne: "raw \<noteq> []"
    using assms(2) by (auto simp add: py_strip_def)
  have c: "call_tool e g SEARCH_PRODUCTS arguments st
           = (Inr (format_response g (py_strip raw) result sa), sa)"
    using assms s ne by (simp add: call_tool_def call_tool_body_def Let_def)
  have q: "query (format_response g (py_strip raw) result sa) = py_strip raw"
    and p: "products (format_response g (py_strip raw) result sa) = result"
    by (simp_all add: format_response_def)
  show ?thesis
    using c s q p py_strip_unchanged [of raw] by auto
qed

theorem echoed_query_is_trimmed_witness:
  "2 \<le> length (py_strip ''  SBC-230 '')
   \<and> call_tool scenario_env default_settings SEARCH_PRODUCTS
        [''query'' \<mapsto> JStr ''  SBC-230 ''] initial_state
       = (Inr scenario_response, scenario_final)
   \<and> search_products scenario_env default_settings ''SBC-230'' initial_state
       = (products scenario_response, scenario_final)
   \<and> query scenario_response = ''SBC-230''"
proof -
  have t: "py_strip ''  SBC-230 '' = ''SBC-230''"
    by code_simp
  have h1: "[''query'' \<mapsto> JStr ''  SBC-230 ''] ''query'' = Some (JStr ''  SBC-230 '')"
    by simp
  have h2: "2 \<le> length (py_strip ''  SBC-230 '')"
    by (simp add: t)
  show ?thesis
    using h2 t call_tool_scenario
      echoed_query_is_trimmed [where arguments = "[''query'' \<mapsto> JStr ''  SBC-230 '']"
        and raw = "''  SBC-230 ''" and e = scenario_env and g = default_settings
        and st = initial_state, OF h1 h2]
    by (auto simp add: scenario_response_def)
qed

section \<open>Properties of the specification extraction\<close>

text \<open>
  C7. On a table whose first row is the header \<open>Specification | Details\<close>, the
  browser-driven extraction keeps the header as an entry; the fallback extraction, which
  compares the lower-cased first cell with "specification" and "feature", skips it.
\<close>

theorem browser_keeps_header_row:
  "extract_specifications header_row_page
   = [(''Specification'', ''Details''), (''CPU'', ''Intel Atom x6425E'')]
   \<and> extract_specifications_simple header_row_page = [(''CPU'', ''Intel Atom x6425E'')]"
  by code_simp

lemma fold_keys_subset:
  assumes "\<And>x acc. x \<in> set xs \<Longrightarrow> fst ` set (f x acc) \<subseteq> fst ` set acc \<union> K x"
  shows "fst ` set (fold f xs acc) \<subseteq> fst ` set acc \<union> (\<Union>x \<in> set xs. K x)"
  using assms
proof (induction xs arbitrary: acc)
  case Nil
  then show ?case by simp
next
  case (Cons x xs)
  have 1: "fst ` set (f x acc) \<subseteq> fst ` set acc \<union> K x"
    using Cons.prems [of x acc] by simp
  have 2: "fst ` set (fold f xs (f x acc)) \<subseteq> fst ` set (f x acc) \<union> (\<Union>y \<in> set xs. K y)"
    using Cons.IH [of "f x acc"] Cons.prems by simp
  have "fst ` set (f x acc) \<union> (\<Union>y \<in> set xs. K y)
        \<subseteq> (fst ` set acc \<union> K x) \<union> (\<Union>y \<in> set xs. K y)"
    using 1 by (rule Un_mono) (rule subset_refl)
  with 2 have "fst ` set (fold f xs (f x acc))
        \<subseteq> (fst ` set acc \<union> K x) \<union> (\<Union>y \<in> set xs. K y)"
    by (rule subset_trans)
  then show ?case by (simp add: Un_assoc)
qed

lemma browser_row_keys:
  "fst ` set (browser_row category cells sp) \<subseteq> fst ` set sp \<union> browser_row_keys category cells"
  by (auto simp add: browser_row_def browser_row_keys_def Let_def dom_update)

lemma fallback_row_keys:
  "fst ` set (fallback_row category cells sp)
   \<subseteq> fst ` set sp \<union> fallback_row_keys category cells"
  by (auto simp add: fallback_row_def fallback_row_keys_def Let_def dom_update)

lemma browser_table_keys:
  "fst ` set (browser_table t sp)
   \<subseteq> fst ` set sp \<union> (\<Union>cells \<in> set (rows t). browser_row_keys (browser_category t) cells)"
  unfolding browser_table_def
  by (rule fold_keys_subset) (rule browser_row_keys)

lemma fallback_table_keys:
  "fst ` set (fallback_table t sp)
   \<subseteq> fst ` set sp \<union> (\<Union>cells \<in> set (rows t). fallback_row_keys (fallback_category t) cells)"
  unfolding fallback_table_def
  by (rule fold_keys_subset) (rule fallback_row_keys)

lemma extract_specifications_keys:
  "fst ` set (extract_specifications soup)
   \<subseteq> (\<Union>t \<in> set (select_table_spec soup).
        \<Union>cells \<in> set (rows t). browser_row_keys (browser_category t) cells)"
proof -
  have "fst ` set (fold browser_table (select_table_spec soup) [])
        \<subseteq> fst ` set ([] :: specs)
          \<union> (\<Union>t \<in> set (select_table_spec soup).
               \<Union>cells \<in> set (rows t). browser_row_keys (browser_category t) cells)"
    by (rule fold_keys_subset) (rule browser_table_keys)
  then show ?thesis by (simp add: extract_specifications_def)
qed

lemma fallback_tables_keys:
  "fst ` set (fold fallback_table (select_table_spec_any soup) [])
   \<subseteq> (\<Union>t \<in> set (select_table_spec_any soup).
        \<Union>cells \<in> set (rows t). fallback_row_keys (fallback_category t) cells)"
proof -
  have "fst ` set (fold fallback_table (select_table_spec_any soup) [])
        \<subseteq> fst ` set ([] :: specs)
          \<union> (\<Union>t \<in> set (select_table_spec_any soup).
               \<Union>cells \<in> set (rows t). fallback_row_keys (fallback_category t) cells)"
    by (rule fold_keys_subset) (rule fallback_table_keys)
  then show ?thesis by simp
qed

lemma description_entry_keys: "(k, v) \<in> set (description_entry ds) \<Longrightarrow> k = ''Description''"
  by (induction ds) (auto simp add: Let_def split: if_splits)

text \<open>
  C8 (amended). Every key of the browser-driven extraction comes from a row with at least
  2 cells of a selected table: it is "<category> - <field>" when the category, the
  stripped text of the table's preceding heading, is not empty, and "<field>" when there
  is no such heading or its text is empty. The same holds for the keys of the fallback
  extraction, except for the key \<open>Description\<close> of the entry it makes when the tables
  gave no entry.
\<close>

theorem specification_keys_composed:
  "(\<forall>k v. (k, v) \<in> set (extract_specifications soup) \<longrightarrow>
      (\<exists>t cells. t \<in> set (select_table_spec soup) \<and> cells \<in> set (rows t)
         \<and> 2 \<le> length cells
         \<and> k = (if browser_category t \<noteq> []
                then browser_category t @ '' - '' @ py_strip (text_of (cells ! 0))
                else py_strip (text_of (cells ! 0)))))
   \<and> (\<forall>k v. (k, v) \<in> set (extract_specifications_simple soup) \<longrightarrow>
      (k = ''Description'' \<and> fold fallback_table (select_table_spec_any soup) [] = [])
      \<or> (\<exists>t cells. t \<in> set (select_table_spec_any soup) \<and> cells \<in> set (rows t)
         \<and> 2 \<le> length cells
         \<and> k = (if fallback_category t \<noteq> []
                then fallback_category t @ '' - '' @ get_text_strip (cells ! 0)
                else get_text_strip (cells ! 0))))"
proof (intro conjI allI impI)
  fix k v
  assume "(k, v) \<in> set (extract_specifications soup)"
  then have "k \<in> fst ` set (extract_specifications soup)" by force
  then have "k \<in> (\<Union>t \<in> set (select_table_spec soup).
                \<Union>cells \<in> set (rows t). browser_row_keys (browser_category t) cells)"
    using extract_specifications_keys [of soup] by blast
  then obtain t cells where "t \<in> set (select_table_spec soup)" "cells \<in> set (rows t)"
    "k \<in> browser_row_keys (browser_category t) cells"
    by blast
  then show "\<exists>t cells. t \<in> set (select_table_spec soup) \<and> cells \<in> set (rows t)
         \<and> 2 \<le> length cells
         \<and> k = (if browser_category t \<noteq> []
                then browser_category t @ '' - '' @ py_strip (text_of (cells ! 0))
                else py_strip (text_of (cells ! 0)))"
    by (auto simp add: browser_row_keys_def full_key_def split: if_splits)
next
  fix k v
  assume a: "(k, v) \<in> set (extract_specifications_simple soup)"
  let ?sp = "fold fallback_table (select_table_spec_any soup) []"
  show "(k = ''Description'' \<and> ?sp = [])
      \<or> (\<exists>t cells. t \<in> set (select_table_spec_any soup) \<and> cells \<in> set (rows t)
         \<and> 2 \<le> length cells
         \<and> k = (if fallback_category t \<noteq> []
                then fallback_category t @ '' - '' @ get_text_strip (cells ! 0)
                else get_text_strip (cells ! 0)))"
  proof (cases "?sp = []")
    case True
    then have "(k, v) \<in> set (description_entry (desc_elements soup))"
      using a by (simp add: extract_specifications_simple_def)
    then show ?thesis using True description_entry_keys by blast
  next
    case False
    then have "(k, v) \<in> set ?sp"
      using a by (simp add: extract_specifications_simple_def Let_def)
    then have "k \<in> fst ` set ?sp" by force
    then have "k \<in> (\<Union>t \<in> set (select_table_spec_any soup).
                  \<Union>cells \<in> set (rows t). fallback_row_keys (fallback_category t) cells)"
      using fallback_tables_keys [of soup] by blast
    then obtain t cells where "t \<in> set (select_table_spec_any soup)" "cells \<in> set (rows t)"
      "k \<in> fallback_row_keys (fallback_category t) cells"
      by blast
    then have "\<exists>t cells. t \<in> set (select_table_spec_any soup) \<and> cells \<in> set (rows t)
         \<and> 2 \<le> length cells
         \<and> k = (if fallback_category t \<noteq> []
                then fallback_category t @ '' - '' @ get_text_strip (cells ! 0)
                else get_text_strip (cells ! 0))"
      by (auto simp add: fallback_row_keys_def full_key_def split: if_splits)
    then show ?thesis by blast
  qed
qed

theorem specification_keys_composed_witness:
  "(''System - CPU'', ''Intel Atom x6425E'') \<in> set (extract_specifications scenario_product_page)
   \<and> (\<exists>t cells. t \<in> set (select_table_spec scenario_product_page) \<and> cells \<in> set (rows t)
         \<and> 2 \<le> length cells
         \<and> ''System - CPU''
             = (if browser_category t \<noteq> []
                then browser_category t @ '' - '' @ py_strip (text_of (cells ! 0))
                else py_strip (text_of (cells ! 0))))
   \<and> (''System - CPU'', ''Intel Atom x6425E'')
       \<in> set (extract_specifications_simple scenario_product_page)
   \<and> ((''System - CPU'' = ''Description''
        \<and> fold fallback_table (select_table_spec_any scenario_product_page) [] = [])
       \<or> (\<exists>t cells. t \<in> set (select_table_spec_any scenario_product_page)
            \<and> cells \<in> set (rows t) \<and> 2 \<le> length cells
            \<and> ''System - CPU''
                = (if fallback_category t \<noteq> []
                   then fallback_category t @ '' - '' @ get_text_strip (cells ! 0)
                   else get_text_strip (cells ! 0))))"
proof -
  have m1: "(''System - CPU'', ''Intel Atom x6425E'')
            \<in> set (extract_specifications scenario_product_page)"
    by code_simp
  have m2: "(''System - CPU'', ''Intel Atom x6425E'')
            \<in> set (extract_specifications_simple scenario_product_page)"
    by code_simp
  note k = specification_keys_composed [of scenario_product_page]
  note k1 = k [THEN conjunct1, THEN spec, THEN spec, THEN mp, OF m1]
  note k2 = k [THEN conjunct2, THEN spec, THEN spec, THEN mp, OF m2]
  show ?thesis
  proof (intro conjI)
    show "(''System - CPU'', ''Intel Atom x6425E'')
            \<in> set (extract_specifications scenario_product_page)"
      by (rule m1)
    show "(''System - CPU'', ''Intel Atom x6425E'')
            \<in> set (extract_specifications_simple scenario_product_page)"
      by (rule m2)
    show "\<exists>t cells. t \<in> set (select_table_spec scenario_product_page) \<and> cells \<in> set (rows t)
         \<and> 2 \<le> length cells
         \<and> ''System - CPU''
             = (if browser_category t \<noteq> []
                then browser_category t @ '' - '' @ py_strip (text_of (cells ! 0))
                else py_strip (text_of (cells ! 0)))"
      by (rule k1)
    show "(''System - CPU'' = ''Description''
        \<and> fold fallback_table (select_table_spec_any scenario_product_page) [] = [])
       \<or> (\<exists>t cells. t \<in> set (select_table_spec_any scenario_product_page)
            \<and> cells \<in> set (rows t) \<and> 2 \<le> length cells
            \<and> ''System - CPU''
                = (if fallback_category t \<noteq> []
                   then fallback_category t @ '' - '' @ get_text_strip (cells ! 0)
                   else get_text_strip (cells ! 0)))"
      by (rule k2)
  qed
qed

text \<open>
  A table under a heading that is found and whose text is blank: the key is the field
  alone, not the empty category followed by " - " and the field.
\<close>

theorem blank_heading_key_counterexample:
  "prev_h3_title_sub blank_heading_table = Some ['' '']
   \<and> select_table_spec blank_heading_page = [blank_heading_table]
   \<and> extract_specifications blank_heading_page = [(''CPU'', ''Intel Atom x6425E'')]
   \<and> extract_specifications_simple blank_heading_page = [(''CPU'', ''Intel Atom x6425E'')]
   \<and> ''CPU'' \<noteq> browser_category blank_heading_table @ '' - '' @ ''CPU''
   \<and> ''CPU'' \<noteq> fallback_category blank_heading_table @ '' - '' @ ''CPU''"
  by code_simp

lemma description_entry_find:
  "description_entry ds
   = (case find (\<lambda>d. 10 < length (get_text_strip d)) ds of
        None \<Rightarrow> []
      | Some d \<Rightarrow> [(''Description'', truncate_description (get_text_strip d))])"
  by (induction ds) (auto simp add: Let_def)

lemma long_description_text:
  "get_text_strip [replicate 501 (CHR ''x'')] = replicate 501 (CHR ''x'')"
proof -
  have "\<not> py_isspace (CHR ''x'')"
    by (simp add: py_isspace_def py_whitespace_def)
  then have "py_strip (replicate 501 (CHR ''x'')) = replicate 501 (CHR ''x'')"
    by (intro py_strip_unchanged) simp
  then show ?thesis
    by (simp add: get_text_strip_def stripped_nodes_def)
qed

text \<open>
  C9 (amended). When the fallback extraction finds no specification table, or the tables
  it finds give no entry, it takes the first description element whose stripped text is
  longer than 10 characters and returns the single entry \<open>Description\<close>: the first 500
  characters followed by "..." when the text is longer than 500 characters, the whole
  text otherwise. When no description element has more than 10 characters it returns no
  entry.
\<close>

theorem description_fallback:
  assumes "select_table_spec_any soup = []
           \<or> fold fallback_table (select_table_spec_any soup) [] = []"
  shows "extract_specifications_simple soup
         = (case find (\<lambda>d. 10 < length (get_text_strip d)) (desc_elements soup) of
              None \<Rightarrow> []
            | Some d \<Rightarrow>
                [(''Description'',
                  if 500 < length (get_text_strip d)
                  then take 500 (get_text_strip d) @ ''...''
                  else get_text_strip d)])"
proof -
  have "fold fallback_table (select_table_spec_any soup) [] = []"
    using assms by auto
  then show ?thesis
    by (simp add: extract_specifications_simple_def description_entry_find
        truncate_description_def split: option.splits)
qed

theorem description_fallback_witness:
  "select_table_spec_any description_page = []
   \<and> extract_specifications_simple description_page
       = [(''Description'', ''Fanless embedded box PC'')]
   \<and> select_table_spec_any long_description_page = []
   \<and> extract_specifications_simple long_description_page
       = [(''Description'', replicate 500 (CHR ''x'') @ ''...'')]"
proof -
  have h1: "select_table_spec_any description_page = []"
    by (simp add: select_table_spec_any_def description_page_def)
  have h2: "select_table_spec_any long_description_page = []"
    by (simp add: select_table_spec_any_def long_description_page_def)
  have t1: "map get_text_strip (desc_elements description_page)
            = [''Small SBC'', ''Fanless embedded box PC'']"
    by code_simp
  have f1: "find (\<lambda>d. 10 < length (get_text_strip d)) (desc_elements description_page)
            = Some ['' Fanless embedded box PC '']"
    using t1 by (simp add: description_page_def)
  have f2: "find (\<lambda>d. 10 < length (get_text_strip d)) (desc_elements long_description_page)
            = Some [replicate 501 (CHR ''x'')]"
    by (simp add: long_description_page_def long_description_text)
  have r1: "extract_specifications_simple description_page
            = [(''Description'', ''Fanless embedded box PC'')]"
    using description_fallback [OF disjI1, OF h1] f1 t1 by (simp add: description_page_def)
  have r2: "extract_specifications_simple long_description_page
            = [(''Description'', replicate 500 (CHR ''x'') @ ''...'')]"
    using description_fallback [OF disjI1, OF h2] f2 by (simp add: long_description_text)
  show ?thesis
    using h1 h2 r1 r2 by simp
qed

text \<open>
  A page with no table and the description "Small SBC", 9 characters long: nothing is
  extracted.
\<close>

theorem short_description_counterexample:
  "select_table_spec_any short_description_page = []
   \<and> map get_text_strip (desc_elements short_description_page) = [''Small SBC'']
   \<and> extract_specifications_simple short_description_page = []
   \<and> extract_specifications_simple short_description_page \<noteq> [(''Description'', ''Small SBC'')]"
  by code_simp

end
